theory Spec2Isabelle
  imports Complex_Main "HOL-Library.AList" "HOL-Library.Sublist"
begin

text \<open>
  A shallow embedding of the model-collection and response-parsing layer of seqtypo
  (\<open>models.py\<close>) and of the locus index of its link navigator (\<open>api.py\<close>): each Python
  function is a HOL function of the same name, a raise is an \<open>Inl\<close> result, and what the
  code takes from outside the repository (pydantic's field validation, the \<open>re\<close> module,
  the HTTP transport) is a parameter.
\<close>

section \<open>Python values and errors\<close>

text \<open>
  The exceptions the modelled code raises (or lets escape from the interpreter and from the
  libraries it calls). A function that may raise returns \<open>exn + 'a\<close>, \<open>Inl\<close> the exception.
\<close>

datatype exn = TypeError | ValueError | AttributeError | ValidationError | RegexError

text \<open>
  Python's \<open>p in s\<close> on two strings: \<open>p\<close> occurs in \<open>s\<close> as a contiguous substring.
\<close>

fun str_contains :: "string \<Rightarrow> string \<Rightarrow> bool" where
  "str_contains p [] = (p = [])"
| "str_contains p (c # cs) = (prefix p (c # cs) \<or> str_contains p cs)"

section \<open>Categories (models.py)\<close>

datatype SchemeCategory = MLST | CGMLST | OTHERS

fun SchemeCategory_value :: "SchemeCategory \<Rightarrow> string" where
  "SchemeCategory_value MLST = ''MLST''"
| "SchemeCategory_value CGMLST = ''cgMLST''"
| "SchemeCategory_value OTHERS = ''others''"

datatype DatabaseCategory = SEQDEF | SEQDEF_LARGE | ISOLATES | DB_OTHERS

fun DatabaseCategory_value :: "DatabaseCategory \<Rightarrow> string" where
  "DatabaseCategory_value SEQDEF = ''seqdef''"
| "DatabaseCategory_value SEQDEF_LARGE = ''sequence/profile definitions''"
| "DatabaseCategory_value ISOLATES = ''isolates''"
| "DatabaseCategory_value DB_OTHERS = ''others''"

definition determine_category :: "string \<Rightarrow> string" where
  "determine_category description =
     (if str_contains (SchemeCategory_value CGMLST) description then SchemeCategory_value CGMLST
      else if str_contains (SchemeCategory_value MLST) description then SchemeCategory_value MLST
      else SchemeCategory_value OTHERS)"

section \<open>Entity models (models.py)\<close>

text \<open>
  The dataclasses, with the fields as they are once the instance is built. A field whose
  default is \<open>None\<close> is an \<open>option\<close>. URLs and dates are kept as the strings the API sends
  (the code itself splits and formats an \<open>AnyUrl\<close> as a string).
\<close>

record DatabaseModel =
  db_description :: string
  db_href :: string
  db_name :: string
  db_category :: "string option"
  db_subject :: "string option"

definition DatabaseModel_determine_category :: "DatabaseModel \<Rightarrow> string" where
  "DatabaseModel_determine_category self =
     (if str_contains (DatabaseCategory_value SEQDEF) (db_name self)
        then DatabaseCategory_value SEQDEF
      else if str_contains (DatabaseCategory_value ISOLATES) (db_name self)
        then DatabaseCategory_value ISOLATES
      else DatabaseCategory_value DB_OTHERS)"

text \<open>
  \<open>re.sub(pattern, '', subject)\<close> for the five patterns of \<open>_parse_subject\<close>. None of them has
  a regex metacharacter, so each substitution deletes the occurrences of a literal text,
  found from left to right without overlap.
\<close>

function remove_all :: "string \<Rightarrow> string \<Rightarrow> string" where
  "remove_all p s =
     (if p = [] then s
      else if s = [] then []
      else if prefix p s then remove_all p (drop (length p) s)
      else hd s # remove_all p (tl s))"
  by pat_completeness auto
termination
  by (relation "measure (\<lambda>(p, s). length s)") auto

declare remove_all.simps [simp del]

text \<open>\<open>str.isspace\<close> on the ASCII range, and \<open>str.strip()\<close> with it.\<close>

definition py_isspace :: "char \<Rightarrow> bool" where
  "py_isspace c = (of_char c \<in> {9, 10, 11, 12, 13, 28, 29, 30, 31, 32 :: nat})"

definition py_strip :: "string \<Rightarrow> string" where
  "py_strip s = rev (dropWhile py_isspace (rev (dropWhile py_isspace s)))"

definition patterns_to_remove :: "string list" where
  "patterns_to_remove =
     [''REST API access to '', '' database'',
      DatabaseCategory_value ISOLATES,
      DatabaseCategory_value SEQDEF_LARGE,
      DatabaseCategory_value SEQDEF]"

definition DatabaseModel_parse_subject :: "DatabaseModel \<Rightarrow> string" where
  "DatabaseModel_parse_subject self =
     py_strip (foldl (\<lambda>subject pattern. remove_all pattern subject)
                 (db_description self) patterns_to_remove)"

definition DatabaseModel_post_init :: "DatabaseModel \<Rightarrow> DatabaseModel" where
  "DatabaseModel_post_init self =
     (let self1 = self\<lparr>db_category := Some (DatabaseModel_determine_category self)\<rparr>
      in self1\<lparr>db_subject := Some (DatabaseModel_parse_subject self1)\<rparr>)"

text \<open>
  \<open>DatabaseModel(description=.., href=.., name=.., category=.., subject=..)\<close> with arguments
  of the annotated types: the generated \<open>__init__\<close> stores them and calls \<open>__post_init__\<close>.
\<close>

definition DatabaseModel_init ::
  "string \<Rightarrow> string \<Rightarrow> string \<Rightarrow> string option \<Rightarrow> string option \<Rightarrow> DatabaseModel" where
  "DatabaseModel_init description href name category subject =
     DatabaseModel_post_init
       \<lparr>db_description = description, db_href = href, db_name = name,
        db_category = category, db_subject = subject\<rparr>"

record SchemeModel =
  sch_scheme :: string
  sch_description :: string
  sch_category :: "string option"
  sch_query_endpoint :: "string option"

definition SchemeModel_post_init :: "SchemeModel \<Rightarrow> SchemeModel" where
  "SchemeModel_post_init self =
     (let self1 = self\<lparr>sch_category := Some (determine_category (sch_description self))\<rparr>
      in self1\<lparr>sch_query_endpoint := Some (sch_scheme self1 @ ''/sequence'')\<rparr>)"

definition SchemeModel_init ::
  "string \<Rightarrow> string \<Rightarrow> string option \<Rightarrow> string option \<Rightarrow> SchemeModel" where
  "SchemeModel_init scheme description category query_endpoint =
     SchemeModel_post_init
       \<lparr>sch_scheme = scheme, sch_description = description,
        sch_category = category, sch_query_endpoint = query_endpoint\<rparr>"

record FullSchemeModel =
  fs_id :: int
  fs_loci :: "string list"
  fs_description :: string
  fs_locus_count :: int
  fs_has_primary_key_field :: bool
  fs_primary_key_field :: "string option"
  fs_last_updated :: "string option"
  fs_last_added :: "string option"
  fs_profiles_csv :: "string option"
  fs_records :: "int option"
  fs_profiles :: "string option"
  fs_fields :: "string list option"
  fs_curators :: "string list option"
  fs_category :: "string option"

definition FullSchemeModel_post_init :: "FullSchemeModel \<Rightarrow> FullSchemeModel" where
  "FullSchemeModel_post_init self =
     self\<lparr>fs_category := Some (determine_category (fs_description self))\<rparr>"

record ApiResourceModel =
  res_databases :: "DatabaseModel list"
  res_description :: string
  res_name :: string
  res_long_description :: "string option"

section \<open>Python objects\<close>

text \<open>
  The three collection classes and the entity class each one is specialised for.
\<close>

datatype ListClass = ResourceList | DatabaseList | SchemeList

datatype ModelClass = C_ApiResourceModel | C_DatabaseModel | C_SchemeModel

text \<open>
  The objects a collection can be handed: a decoded JSON value (\<open>None\<close>, a bool, a number,
  a string, a list, a dict with string keys), an entity, or a collection. The field
  \<open>res_databases\<close> of a resource is the content of the \<open>DatabaseList\<close> that its
  \<open>__post_init__\<close> stores in \<open>databases\<close>.
\<close>

datatype pyobj =
    PNone
  | PBool bool
  | PInt int
  | PFloat real
  | PStr string
  | PList "pyobj list"
  | PDict "(string \<times> pyobj) list"
  | PDatabase DatabaseModel
  | PScheme SchemeModel
  | PResource ApiResourceModel
  | PModelList ListClass "pyobj list"

fun isinstance :: "pyobj \<Rightarrow> ModelClass \<Rightarrow> bool" where
  "isinstance (PResource r) C_ApiResourceModel = True"
| "isinstance (PDatabase d) C_DatabaseModel = True"
| "isinstance (PScheme s) C_SchemeModel = True"
| "isinstance obj cls = False"

definition opt_str :: "string option \<Rightarrow> pyobj" where
  "opt_str v = (case v of None \<Rightarrow> PNone | Some s \<Rightarrow> PStr s)"

text \<open>
  \<open>getattr(obj, attr)\<close> on the fields of the dataclasses. The methods and the special
  attributes of an object are left out: every other name, and every other object, gives
  \<open>AttributeError\<close>.
\<close>

fun getattr :: "pyobj \<Rightarrow> string \<Rightarrow> exn + pyobj" where
  "getattr (PDatabase d) attr =
     (if attr = ''description'' then Inr (PStr (db_description d))
      else if attr = ''href'' then Inr (PStr (db_href d))
      else if attr = ''name'' then Inr (PStr (db_name d))
      else if attr = ''category'' then Inr (opt_str (db_category d))
      else if attr = ''subject'' then Inr (opt_str (db_subject d))
      else Inl AttributeError)"
| "getattr (PScheme s) attr =
     (if attr = ''scheme'' then Inr (PStr (sch_scheme s))
      else if attr = ''description'' then Inr (PStr (sch_description s))
      else if attr = ''category'' then Inr (opt_str (sch_category s))
      else if attr = ''query_endpoint'' then Inr (opt_str (sch_query_endpoint s))
      else Inl AttributeError)"
| "getattr (PResource r) attr =
     (if attr = ''databases'' then Inr (PModelList DatabaseList (map PDatabase (res_databases r)))
      else if attr = ''description'' then Inr (PStr (res_description r))
      else if attr = ''name'' then Inr (PStr (res_name r))
      else if attr = ''long_description'' then Inr (opt_str (res_long_description r))
      else Inl AttributeError)"
| "getattr obj attr = Inl AttributeError"

section \<open>The collection container (models.py, ModelList)\<close>

record ModelList =
  ml_class :: ListClass
  data :: "pyobj list"
  model :: ModelClass

fun get_model :: "ListClass \<Rightarrow> ModelClass" where
  "get_model ResourceList = C_ApiResourceModel"
| "get_model DatabaseList = C_DatabaseModel"
| "get_model SchemeList = C_SchemeModel"

fun set_url_attr :: "ListClass \<Rightarrow> string option" where
  "set_url_attr ResourceList = None"
| "set_url_attr DatabaseList = Some ''href''"
| "set_url_attr SchemeList = Some ''scheme''"

text \<open>
  \<open>__init__\<close> stores the list and the entity class, and nothing else. \<open>__post_init__\<close> is
  the method that validates; \<open>ModelList\<close> is an ordinary class, not a dataclass, so nothing
  calls it when an instance is built.
\<close>

definition ModelList_init :: "ListClass \<Rightarrow> pyobj list \<Rightarrow> ModelList" where
  "ModelList_init cls d = \<lparr>ml_class = cls, data = d, model = get_model cls\<rparr>"

definition validate_input :: "ModelList \<Rightarrow> pyobj \<Rightarrow> exn + unit" where
  "validate_input self input_list =
     (case input_list of
        PList xs \<Rightarrow>
          if \<not> list_all (\<lambda>i. isinstance i (model self)) xs then Inl TypeError else Inr ()
      | _ \<Rightarrow> Inl TypeError)"

definition ModelList_post_init :: "ModelList \<Rightarrow> exn + unit" where
  "ModelList_post_init self = validate_input self (PList (data self))"

definition ModelList_append :: "ModelList \<Rightarrow> pyobj \<Rightarrow> exn + ModelList" where
  "ModelList_append self d =
     (if isinstance d (model self) then Inr (self\<lparr>data := data self @ [d]\<rparr>)
      else Inl ValueError)"

definition ModelList_extend :: "ModelList \<Rightarrow> pyobj \<Rightarrow> exn + ModelList" where
  "ModelList_extend self d =
     (case validate_input self d of
        Inl e \<Rightarrow> Inl e
      | Inr u \<Rightarrow> (case d of PList xs \<Rightarrow> Inr (self\<lparr>data := data self @ xs\<rparr>)
                           | _ \<Rightarrow> Inl TypeError))"

definition from_list_of_model_lists :: "ListClass \<Rightarrow> ModelList list \<Rightarrow> ModelList" where
  "from_list_of_model_lists cls ds =
     (let data_list = map data ds;
          flatten_list = concat data_list
      in ModelList_init cls flatten_list)"

definition ModelList_from_json :: "ListClass \<Rightarrow> pyobj \<Rightarrow> exn + ModelList" where
  "ModelList_from_json cls json =
     (case json of PList xs \<Rightarrow> Inr (ModelList_init cls xs) | _ \<Rightarrow> Inl ValueError)"

subsection \<open>search\<close>

text \<open>
  The \<open>re\<close> module is the standard library's: \<open>re.compile\<close> (which rejects a malformed
  pattern) and the \<open>search\<close> of a compiled pattern on a string are parameters.
\<close>

record 'rx re_module =
  re_compile :: "string \<Rightarrow> 'rx option"
  re_search :: "'rx \<Rightarrow> string \<Rightarrow> bool"

text \<open>A list comprehension whose condition may raise: the first exception ends it.\<close>

fun filter_exn :: "('a \<Rightarrow> exn + bool) \<Rightarrow> 'a list \<Rightarrow> exn + 'a list" where
  "filter_exn P [] = Inr []"
| "filter_exn P (x # xs) =
     (case P x of
        Inl e \<Rightarrow> Inl e
      | Inr b \<Rightarrow> (case filter_exn P xs of
                    Inl e \<Rightarrow> Inl e
                  | Inr ys \<Rightarrow> Inr (if b then x # ys else ys)))"

text \<open>
  \<open>regex.search(v)\<close> wants a string; \<open>pattern == v\<close> is false for whatever is not that
  string; \<open>pattern in v\<close> is substring search on a string, membership in a list or a
  collection, key membership in a dict, and a \<open>TypeError\<close> on anything else.
\<close>

definition regex_search :: "'rx re_module \<Rightarrow> 'rx \<Rightarrow> pyobj \<Rightarrow> exn + bool" where
  "regex_search re regex v =
     (case v of PStr s \<Rightarrow> Inr (re_search re regex s) | _ \<Rightarrow> Inl TypeError)"

definition py_eq :: "string \<Rightarrow> pyobj \<Rightarrow> bool" where
  "py_eq pattern v = (v = PStr pattern)"

definition py_in :: "string \<Rightarrow> pyobj \<Rightarrow> exn + bool" where
  "py_in pattern v =
     (case v of
        PStr s \<Rightarrow> Inr (str_contains pattern s)
      | PList xs \<Rightarrow> Inr (PStr pattern \<in> set xs)
      | PDict kvs \<Rightarrow> Inr (pattern \<in> set (map fst kvs))
      | PModelList c xs \<Rightarrow> Inr (PStr pattern \<in> set xs)
      | _ \<Rightarrow> Inl TypeError)"

definition with_attr :: "pyobj \<Rightarrow> string \<Rightarrow> (pyobj \<Rightarrow> exn + bool) \<Rightarrow> exn + bool" where
  "with_attr d attr test = (case getattr d attr of Inl e \<Rightarrow> Inl e | Inr v \<Rightarrow> test v)"

definition truthy :: "string option \<Rightarrow> bool" where
  "truthy v = (case v of None \<Rightarrow> False | Some s \<Rightarrow> s \<noteq> [])"

definition search_pattern ::
  "'rx re_module \<Rightarrow> pyobj list \<Rightarrow> string \<Rightarrow> string \<Rightarrow> bool \<Rightarrow> bool \<Rightarrow> exn + pyobj list" where
  "search_pattern re filtered_data attr pattern exact_match use_regex =
     (if use_regex then
        (case re_compile re pattern of
           None \<Rightarrow> Inl RegexError
         | Some regex \<Rightarrow>
             filter_exn (\<lambda>d. with_attr d attr (regex_search re regex)) filtered_data)
      else if exact_match then
        filter_exn (\<lambda>d. with_attr d attr (\<lambda>v. Inr (py_eq pattern v))) filtered_data
      else
        filter_exn (\<lambda>d. with_attr d attr (py_in pattern)) filtered_data)"

definition search ::
  "'rx re_module \<Rightarrow> ModelList \<Rightarrow> string \<Rightarrow> string option \<Rightarrow> string option \<Rightarrow> bool \<Rightarrow> bool
     \<Rightarrow> exn + ModelList" where
  "search re self attr pattern category exact_match use_regex =
     (case (if truthy pattern
            then search_pattern re (data self) attr (the pattern) exact_match use_regex
            else Inr (data self)) of
        Inl e \<Rightarrow> Inl e
      | Inr filtered_data \<Rightarrow>
          (case (if truthy category
                 then filter_exn
                        (\<lambda>d. with_attr d ''category'' (\<lambda>v. Inr (py_eq (the category) v)))
                        filtered_data
                 else Inr filtered_data) of
             Inl e \<Rightarrow> Inl e
           | Inr filtered_data' \<Rightarrow> Inr (ModelList_init (ml_class self) filtered_data')))"

section \<open>The link navigator (api.py, FullSchemeApi)\<close>

text \<open>\<open>str.split(sep)\<close> for a one-character separator: it never returns an empty list.\<close>

fun py_split :: "char \<Rightarrow> string \<Rightarrow> string list" where
  "py_split sep [] = [[]]"
| "py_split sep (c # cs) =
     (if c = sep then [] # py_split sep cs
      else (case py_split sep cs of [] \<Rightarrow> [[c]] | w # ws \<Rightarrow> (c # w) # ws))"

text \<open>
  A dict is an association list in insertion order: storing under a key that is there
  replaces its value in place, storing under a new key appends (\<open>AList.update\<close>).
\<close>

record FullSchemeApi =
  fsa_model :: FullSchemeModel
  indexed_locis :: "(string \<times> string) list"

text \<open>\<open>loci.split('/')[-1]\<close>, the key of a locus URL.\<close>

definition locus_key :: "string \<Rightarrow> string" where
  "locus_key loci = last (py_split CHR ''/'' loci)"

definition index_loci :: "FullSchemeModel \<Rightarrow> (string \<times> string) list" where
  "index_loci m =
     foldl (\<lambda>locis loci. AList.update (locus_key loci) loci locis) [] (fs_loci m)"

definition FullSchemeApi_init :: "FullSchemeModel \<Rightarrow> FullSchemeApi" where
  "FullSchemeApi_init m = \<lparr>fsa_model = m, indexed_locis = index_loci m\<rparr>"

definition list_loci :: "FullSchemeApi \<Rightarrow> string list" where
  "list_loci self = map fst (indexed_locis self)"

text \<open>
  \<open>LociApi.from_url(url).get_alleles()\<close> is two requests and a FASTA parse, all of them the
  transport's: the parameter \<open>fetch\<close>. The method's result is the parsed FASTA or \<open>None\<close>;
  the line it prints before returning \<open>None\<close> is left out.
\<close>

definition get_alleles_fasta ::
  "(string \<Rightarrow> exn + 'fasta) \<Rightarrow> FullSchemeApi \<Rightarrow> string \<Rightarrow> exn + 'fasta option" where
  "get_alleles_fasta fetch self loci =
     (case map_of (indexed_locis self) loci of
        Some url \<Rightarrow> (case fetch url of Inl e \<Rightarrow> Inl e | Inr fasta \<Rightarrow> Inr (Some fasta))
      | None \<Rightarrow> Inr None)"

section \<open>Building entities from JSON (models.py)\<close>

text \<open>
  The dataclasses are pydantic dataclasses: the generated \<open>__init__\<close> binds the keyword
  arguments to the fields, has pydantic validate each value against the field's
  annotation, and then calls \<open>__post_init__\<close>. Validation is pydantic's, not this
  repository's, so the validators are parameters: each takes the value passed and returns
  the value stored, or \<open>None\<close> when it rejects it. \<open>none_for_default\<close> says whether a field
  whose default is \<open>None\<close> accepts an explicit \<open>None\<close> without being annotated \<open>Optional\<close>
  (pydantic 1 does, pydantic 2 does not).
\<close>

type_synonym kwargs = "(string \<times> pyobj) list"

record pydantic =
  v_str :: "pyobj \<Rightarrow> string option"
  v_int :: "pyobj \<Rightarrow> int option"
  v_url :: "pyobj \<Rightarrow> string option"
  v_category :: "pyobj \<Rightarrow> string option"
  v_dict :: "pyobj \<Rightarrow> kwargs option"
  v_list_dict :: "pyobj \<Rightarrow> pyobj list option"
  none_for_default :: bool

definition bind_exn :: "exn + 'a \<Rightarrow> ('a \<Rightarrow> exn + 'b) \<Rightarrow> exn + 'b" where
  "bind_exn m f = (case m of Inl e \<Rightarrow> Inl e | Inr a \<Rightarrow> f a)"

text \<open>A list comprehension whose body may raise.\<close>

fun map_exn :: "('a \<Rightarrow> exn + 'b) \<Rightarrow> 'a list \<Rightarrow> exn + 'b list" where
  "map_exn f [] = Inr []"
| "map_exn f (x # xs) =
     (case f x of
        Inl e \<Rightarrow> Inl e
      | Inr y \<Rightarrow> (case map_exn f xs of Inl e \<Rightarrow> Inl e | Inr ys \<Rightarrow> Inr (y # ys)))"

text \<open>
  Binding keyword arguments to a dataclass: a keyword that is no field, or a field
  without default that gets no keyword, is a \<open>TypeError\<close> of the call.
\<close>

definition bind_args :: "string list \<Rightarrow> string list \<Rightarrow> kwargs \<Rightarrow> exn + unit" where
  "bind_args names required kw =
     (if list_ex (\<lambda>k. k \<notin> set names) (map fst kw) then Inl TypeError
      else if list_ex (\<lambda>f. f \<notin> set (map fst kw)) required then Inl TypeError
      else Inr ())"

definition required_field :: "(pyobj \<Rightarrow> 'a option) \<Rightarrow> kwargs \<Rightarrow> string \<Rightarrow> exn + 'a" where
  "required_field v kw name =
     (case map_of kw name of
        None \<Rightarrow> Inl TypeError
      | Some x \<Rightarrow> (case v x of None \<Rightarrow> Inl ValidationError | Some a \<Rightarrow> Inr a))"

text \<open>A field declared \<open>T = None\<close>: left out it is \<open>None\<close>, and the default is not validated.\<close>

definition defaulted_field ::
  "pydantic \<Rightarrow> (pyobj \<Rightarrow> 'a option) \<Rightarrow> kwargs \<Rightarrow> string \<Rightarrow> exn + 'a option" where
  "defaulted_field V v kw name =
     (case map_of kw name of
        None \<Rightarrow> Inr None
      | Some x \<Rightarrow>
          if x = PNone \<and> none_for_default V then Inr None
          else (case v x of None \<Rightarrow> Inl ValidationError | Some a \<Rightarrow> Inr (Some a)))"

text \<open>A field declared \<open>Optional[T] = None\<close>: \<open>None\<close> is a value of the annotation.\<close>

definition optional_field ::
  "(pyobj \<Rightarrow> 'a option) \<Rightarrow> kwargs \<Rightarrow> string \<Rightarrow> exn + 'a option" where
  "optional_field v kw name =
     (case map_of kw name of
        None \<Rightarrow> Inr None
      | Some x \<Rightarrow>
          if x = PNone then Inr None
          else (case v x of None \<Rightarrow> Inl ValidationError | Some a \<Rightarrow> Inr (Some a)))"

text \<open>\<open>cls(**value)\<close>: the value unpacked has to be a mapping.\<close>

definition unpack :: "(kwargs \<Rightarrow> exn + 'a) \<Rightarrow> pyobj \<Rightarrow> exn + 'a" where
  "unpack cls value = (case value of PDict kw \<Rightarrow> cls kw | _ \<Rightarrow> Inl TypeError)"

subsection \<open>Databases and resources\<close>

definition DatabaseModel_new :: "pydantic \<Rightarrow> kwargs \<Rightarrow> exn + DatabaseModel" where
  "DatabaseModel_new V kw =
     bind_exn (bind_args [''description'', ''href'', ''name'', ''category'', ''subject'']
                 [''description'', ''href'', ''name''] kw) (\<lambda>u.
     bind_exn (required_field (v_str V) kw ''description'') (\<lambda>description.
     bind_exn (required_field (v_url V) kw ''href'') (\<lambda>href.
     bind_exn (required_field (v_str V) kw ''name'') (\<lambda>name.
     bind_exn (optional_field (v_category V) kw ''category'') (\<lambda>category.
     bind_exn (optional_field (v_str V) kw ''subject'') (\<lambda>subject.
     Inr (DatabaseModel_init description href name category subject)))))))"

text \<open>
  \<open>_set_list_model\<close>: the attribute has to hold a list; each of its values is turned into
  an entity, any exception of that becoming a \<open>ValueError\<close>; the entities are the content
  of the collection stored back in the attribute (building a collection checks nothing).
\<close>

definition set_list_model :: "(pyobj \<Rightarrow> exn + 'e) \<Rightarrow> pyobj \<Rightarrow> exn + 'e list" where
  "set_list_model api_model attr_values =
     (case attr_values of
        PList vs \<Rightarrow>
          (case map_exn api_model vs of
             Inl e \<Rightarrow> Inl ValueError
           | Inr attr_list \<Rightarrow> Inr attr_list)
      | _ \<Rightarrow> Inl ValueError)"

definition ApiResourceModel_new :: "pydantic \<Rightarrow> kwargs \<Rightarrow> exn + ApiResourceModel" where
  "ApiResourceModel_new V kw =
     bind_exn (bind_args [''databases'', ''description'', ''name'', ''long_description'']
                 [''databases'', ''description'', ''name''] kw) (\<lambda>u.
     bind_exn (required_field (v_list_dict V) kw ''databases'') (\<lambda>databases.
     bind_exn (required_field (v_str V) kw ''description'') (\<lambda>description.
     bind_exn (required_field (v_str V) kw ''name'') (\<lambda>name.
     bind_exn (optional_field (v_str V) kw ''long_description'') (\<lambda>long_description.
     bind_exn (set_list_model (unpack (DatabaseModel_new V)) (PList databases)) (\<lambda>dbs.
     Inr \<lparr>res_databases = dbs, res_description = description, res_name = name,
          res_long_description = long_description\<rparr>))))))"

record ApiResourceCollectionModel =
  resources :: ModelList

definition ApiResourceCollectionModel_new ::
  "pydantic \<Rightarrow> kwargs \<Rightarrow> exn + ApiResourceCollectionModel" where
  "ApiResourceCollectionModel_new V kw =
     bind_exn (bind_args [''resources''] [] kw) (\<lambda>u.
     bind_exn (defaulted_field V (v_list_dict V) kw ''resources'') (\<lambda>res.
     bind_exn (set_list_model (unpack (ApiResourceModel_new V))
                 (case res of None \<Rightarrow> PNone | Some vs \<Rightarrow> PList vs)) (\<lambda>rs.
     Inr \<lparr>resources = ModelList_init ResourceList (map PResource rs)\<rparr>)))"

definition ApiResourceCollectionModel_from_json ::
  "pydantic \<Rightarrow> pyobj \<Rightarrow> exn + ApiResourceCollectionModel" where
  "ApiResourceCollectionModel_from_json V json =
     (case json of
        PList xs \<Rightarrow> ApiResourceCollectionModel_new V [(''resources'', json)]
      | _ \<Rightarrow> Inl ValueError)"

subsection \<open>Query results\<close>

record AlleleExactResult =
  aer_allele_id :: int
  aer_href :: "string option"
  aer_allele_name :: "string option"
  aer_start :: "int option"
  aer_end :: "int option"
  aer_orientation :: "string option"
  aer_length :: "int option"
  aer_contig :: "string option"
  aer_linked_data :: "kwargs option"

definition AlleleExactResult_new :: "pydantic \<Rightarrow> kwargs \<Rightarrow> exn + AlleleExactResult" where
  "AlleleExactResult_new V kw =
     bind_exn (bind_args [''allele_id'', ''href'', ''allele_name'', ''start'', ''end'',
                 ''orientation'', ''length'', ''contig'', ''linked_data''] [''allele_id''] kw) (\<lambda>u.
     bind_exn (required_field (v_int V) kw ''allele_id'') (\<lambda>a_id.
     bind_exn (defaulted_field V (v_str V) kw ''href'') (\<lambda>a_href.
     bind_exn (defaulted_field V (v_str V) kw ''allele_name'') (\<lambda>a_name.
     bind_exn (defaulted_field V (v_int V) kw ''start'') (\<lambda>a_start.
     bind_exn (defaulted_field V (v_int V) kw ''end'') (\<lambda>a_end.
     bind_exn (defaulted_field V (v_str V) kw ''orientation'') (\<lambda>a_orientation.
     bind_exn (defaulted_field V (v_int V) kw ''length'') (\<lambda>a_length.
     bind_exn (defaulted_field V (v_str V) kw ''contig'') (\<lambda>a_contig.
     bind_exn (defaulted_field V (v_dict V) kw ''linked_data'') (\<lambda>a_linked.
     Inr \<lparr>aer_allele_id = a_id, aer_href = a_href, aer_allele_name = a_name,
          aer_start = a_start,
          aer_end = a_end, aer_orientation = a_orientation, aer_length = a_length,
          aer_contig = a_contig, aer_linked_data = a_linked\<rparr>))))))))))"

text \<open>
  \<open>AlleleExactResult(allele_name=allele, **value)\<close>: the value has to be a mapping, and a
  mapping that has the key \<open>allele_name\<close> itself gives the keyword twice, a \<open>TypeError\<close>.
\<close>

definition AlleleExactResult_tagged ::
  "pydantic \<Rightarrow> string \<Rightarrow> pyobj \<Rightarrow> exn + AlleleExactResult" where
  "AlleleExactResult_tagged V allele value =
     (case value of
        PDict kw \<Rightarrow>
          if ''allele_name'' \<in> set (map fst kw) then Inl TypeError
          else AlleleExactResult_new V ((''allele_name'', PStr allele) # kw)
      | _ \<Rightarrow> Inl TypeError)"

text \<open>\<open>for value in matches\<close>: what iterating over a JSON value yields.\<close>

definition iterate :: "pyobj \<Rightarrow> exn + pyobj list" where
  "iterate v =
     (case v of
        PList xs \<Rightarrow> Inr xs
      | PDict kvs \<Rightarrow> Inr (map (\<lambda>kv. PStr (fst kv)) kvs)
      | PStr s \<Rightarrow> Inr (map (\<lambda>c. PStr [c]) s)
      | _ \<Rightarrow> Inl TypeError)"

text \<open>The loop of \<open>SequenceQueryResult.__post_init__\<close> over \<open>self.exact_matches.items()\<close>.\<close>

fun flatten_matches :: "pydantic \<Rightarrow> kwargs \<Rightarrow> exn + AlleleExactResult list" where
  "flatten_matches V [] = Inr []"
| "flatten_matches V ((allele, matches) # rest) =
     (case iterate matches of
        Inl e \<Rightarrow> Inl e
      | Inr vs \<Rightarrow>
          (case map_exn (AlleleExactResult_tagged V allele) vs of
             Inl e \<Rightarrow> Inl e
           | Inr rs \<Rightarrow>
               (case flatten_matches V rest of
                  Inl e \<Rightarrow> Inl e
                | Inr rs' \<Rightarrow> Inr (rs @ rs'))))"

text \<open>
  The fields as \<open>__init__\<close> leaves them, and as \<open>__post_init__\<close> leaves them: it replaces
  the mapping in \<open>exact_matches\<close> by the list. \<open>None.items()\<close> is an \<open>AttributeError\<close>.
\<close>

record SequenceQueryFields =
  raw_exact_matches :: "kwargs option"
  raw_partial_matches :: "kwargs option"
  raw_fields :: "kwargs option"

record SequenceQueryResult =
  sqr_exact_matches :: "AlleleExactResult list"
  sqr_partial_matches :: "kwargs option"
  sqr_fields :: "kwargs option"

definition exact_matches_post_init ::
  "pydantic \<Rightarrow> kwargs option \<Rightarrow> exn + AlleleExactResult list" where
  "exact_matches_post_init V em =
     (case em of None \<Rightarrow> Inl AttributeError | Some items \<Rightarrow> flatten_matches V items)"

definition SequenceQueryResult_post_init ::
  "pydantic \<Rightarrow> SequenceQueryFields \<Rightarrow> exn + SequenceQueryResult" where
  "SequenceQueryResult_post_init V self =
     bind_exn (exact_matches_post_init V (raw_exact_matches self)) (\<lambda>ms.
     Inr \<lparr>sqr_exact_matches = ms, sqr_partial_matches = raw_partial_matches self,
          sqr_fields = raw_fields self\<rparr>)"

definition SequenceQueryResult_new :: "pydantic \<Rightarrow> kwargs \<Rightarrow> exn + SequenceQueryResult" where
  "SequenceQueryResult_new V kw =
     bind_exn (bind_args [''exact_matches'', ''partial_matches'', ''fields''] [] kw) (\<lambda>u.
     bind_exn (defaulted_field V (v_dict V) kw ''exact_matches'') (\<lambda>em.
     bind_exn (defaulted_field V (v_dict V) kw ''partial_matches'') (\<lambda>pm.
     bind_exn (defaulted_field V (v_dict V) kw ''fields'') (\<lambda>fs.
     SequenceQueryResult_post_init V
       \<lparr>raw_exact_matches = em, raw_partial_matches = pm, raw_fields = fs\<rparr>))))"

text \<open>\<open>SchemeQueryResult\<close> adds nothing to \<open>SequenceQueryResult\<close>.\<close>

definition SchemeQueryResult_new :: "pydantic \<Rightarrow> kwargs \<Rightarrow> exn + SequenceQueryResult" where
  "SchemeQueryResult_new V kw = SequenceQueryResult_new V kw"

text \<open>\<open>str.split(sep)\<close> for a separator of any length; an empty one is a \<open>ValueError\<close>.\<close>

function split_from :: "string \<Rightarrow> string \<Rightarrow> string \<Rightarrow> string list" where
  "split_from sep cur s =
     (if s = [] then [rev cur]
      else if sep \<noteq> [] \<and> prefix sep s then rev cur # split_from sep [] (drop (length sep) s)
      else split_from sep (hd s # cur) (tl s))"
  by pat_completeness auto
termination
  by (relation "measure (\<lambda>(sep, cur, s). length s)") auto

declare split_from.simps [simp del]

record TaxonModel =
  tx_taxon :: string
  tx_taxonomy :: "string list"
  tx_support :: int
  tx_rank :: string

definition TaxonModel_new :: "pydantic \<Rightarrow> kwargs \<Rightarrow> exn + TaxonModel" where
  "TaxonModel_new V kw =
     bind_exn (bind_args [''taxon'', ''taxonomy'', ''support'', ''rank'']
                 [''taxon'', ''taxonomy'', ''support'', ''rank''] kw) (\<lambda>u.
     bind_exn (required_field (v_str V) kw ''taxon'') (\<lambda>t_taxon.
     bind_exn (required_field (v_str V) kw ''taxonomy'') (\<lambda>t_taxonomy.
     bind_exn (required_field (v_int V) kw ''support'') (\<lambda>t_support.
     bind_exn (required_field (v_str V) kw ''rank'') (\<lambda>t_rank.
     Inr \<lparr>tx_taxon = t_taxon, tx_taxonomy = split_from '' > '' [] t_taxonomy,
          tx_support = t_support, tx_rank = t_rank\<rparr>)))))"

record rMLSTResultModel = SequenceQueryResult +
  rm_taxon_prediction :: "TaxonModel list option"

definition rMLSTResultModel_post_init ::
  "pydantic \<Rightarrow> SequenceQueryFields \<Rightarrow> pyobj list option \<Rightarrow> exn + rMLSTResultModel" where
  "rMLSTResultModel_post_init V self tp =
     bind_exn (SequenceQueryResult_post_init V self) (\<lambda>super.
     bind_exn (case tp of
                 None \<Rightarrow> Inr None
               | Some vs \<Rightarrow>
                   if vs \<noteq> [] then
                     (case map_exn (unpack (TaxonModel_new V)) vs of
                        Inl e \<Rightarrow> Inl e
                      | Inr ts \<Rightarrow> Inr (Some ts))
                   else Inr (Some [])) (\<lambda>tp'.
     Inr \<lparr>sqr_exact_matches = sqr_exact_matches super,
          sqr_partial_matches = sqr_partial_matches super,
          sqr_fields = sqr_fields super, rm_taxon_prediction = tp'\<rparr>))"

definition rMLSTResultModel_new :: "pydantic \<Rightarrow> kwargs \<Rightarrow> exn + rMLSTResultModel" where
  "rMLSTResultModel_new V kw =
     bind_exn (bind_args [''exact_matches'', ''partial_matches'', ''fields'',
                 ''taxon_prediction''] [] kw) (\<lambda>u.
     bind_exn (defaulted_field V (v_dict V) kw ''exact_matches'') (\<lambda>em.
     bind_exn (defaulted_field V (v_dict V) kw ''partial_matches'') (\<lambda>pm.
     bind_exn (defaulted_field V (v_dict V) kw ''fields'') (\<lambda>fs.
     bind_exn (defaulted_field V (v_list_dict V) kw ''taxon_prediction'') (\<lambda>tp.
     rMLSTResultModel_post_init V
       \<lparr>raw_exact_matches = em, raw_partial_matches = pm, raw_fields = fs\<rparr> tp)))))"

section \<open>Example data\<close>

definition scheme_with_loci :: "string list \<Rightarrow> FullSchemeModel" where
  "scheme_with_loci urls =
     FullSchemeModel_post_init
       \<lparr>fs_id = 1, fs_loci = urls, fs_description = ''MLST'',
        fs_locus_count = int (length urls), fs_has_primary_key_field = True,
        fs_primary_key_field = None, fs_last_updated = None, fs_last_added = None,
        fs_profiles_csv = None, fs_records = None, fs_profiles = None, fs_fields = None,
        fs_curators = None, fs_category = None\<rparr>"

definition example_loci :: "string list" where
  "example_loci = [''https://rest.pubmlst.org/db/pubmlst_neisseria_seqdef/loci/abc123'',
                   ''https://rest.pubmlst.org/db/pubmlst_neisseria_seqdef/loci/xyz789'']"

definition example_scheme :: SchemeModel where
  "example_scheme =
     SchemeModel_init ''https://rest.pubmlst.org/db/pubmlst_neisseria_seqdef/schemes/1''
       ''MLST'' None None"

definition example_databases :: "DatabaseModel list" where
  "example_databases =
     [\<lparr>db_description = ''REST API access to PubMLST Neisseria spp. isolates database'',
       db_href = ''https://rest.pubmlst.org/db/pubmlst_neisseria_isolates'',
       db_name = ''pubmlst_neisseria_isolates'',
       db_category = Some ''isolates'', db_subject = Some ''PubMLST Neisseria spp.''\<rparr>,
      \<lparr>db_description = ''REST API access to PubMLST Neisseria spp. seqdef database'',
       db_href = ''https://rest.pubmlst.org/db/pubmlst_neisseria_seqdef'',
       db_name = ''pubmlst_neisseria_seqdef'',
       db_category = Some ''seqdef'', db_subject = Some ''PubMLST Neisseria spp.''\<rparr>,
      \<lparr>db_description = ''REST API access to PubMLST rMLST seqdef database'',
       db_href = ''https://rest.pubmlst.org/db/pubmlst_rmlst_seqdef'',
       db_name = ''pubmlst_rmlst_seqdef'',
       db_category = Some ''seqdef'', db_subject = Some ''PubMLST rMLST''\<rparr>]"

definition example_resource :: ApiResourceModel where
  "example_resource =
     \<lparr>res_databases = example_databases,
      res_description = ''Neisseria spp.'', res_name = ''neisseria'',
      res_long_description = None\<rparr>"

text \<open>
  A stand-in for \<open>re\<close> on patterns without metacharacters, where compiling always succeeds
  and searching is substring search.
\<close>

definition literal_re :: "string re_module" where
  "literal_re = \<lparr>re_compile = Some, re_search = str_contains\<rparr>"

text \<open>
  Validators that accept a value of the annotation's JSON type as it is, and nothing else.
\<close>

definition json_types :: pydantic where
  "json_types =
     \<lparr>v_str = (\<lambda>x. case x of PStr s \<Rightarrow> Some s | _ \<Rightarrow> None),
      v_int = (\<lambda>x. case x of PInt n \<Rightarrow> Some n | _ \<Rightarrow> None),
      v_url = (\<lambda>x. case x of PStr s \<Rightarrow> Some s | _ \<Rightarrow> None),
      v_category = (\<lambda>x. case x of PStr s \<Rightarrow> Some s | _ \<Rightarrow> None),
      v_dict = (\<lambda>x. case x of PDict d \<Rightarrow> Some d | _ \<Rightarrow> None),
      v_list_dict = (\<lambda>x. case x of
                           PList xs \<Rightarrow>
                             if list_all (\<lambda>y. case y of PDict d \<Rightarrow> True | _ \<Rightarrow> False) xs
                             then Some xs else None
                         | _ \<Rightarrow> None),
      none_for_default = True\<rparr>"

definition example_resources_json :: pyobj where
  "example_resources_json =
     PList [PDict
       [(''name'', PStr ''neisseria''),
        (''description'', PStr ''Neisseria spp.''),
        (''databases'', PList [PDict
           [(''description'', PStr ''REST API access to PubMLST Neisseria spp. isolates database''),
            (''href'', PStr ''https://rest.pubmlst.org/db/pubmlst_neisseria_isolates''),
            (''name'', PStr ''pubmlst_neisseria_isolates'')]])]]"

definition example_exact_matches :: kwargs where
  "example_exact_matches =
     [(''abc'', PList [PDict [(''allele_id'', PInt 1)]]),
      (''xyz'', PList [PDict [(''allele_id'', PInt 2)]])]"

section \<open>Category derivation\<close>

text \<open>\<open>str_contains\<close> decides the contiguous-sublist relation of the library.\<close>

lemma str_contains_iff: "str_contains p s \<longleftrightarrow> (\<exists>pre suf. s = pre @ p @ suf)"
proof (induction s)
  case Nil
  then show ?case by auto
next
  case (Cons c cs)
  have "(\<exists>pre suf. c # cs = pre @ p @ suf) \<longleftrightarrow>
        prefix p (c # cs) \<or> (\<exists>pre suf. cs = pre @ p @ suf)"
  proof
    assume "\<exists>pre suf. c # cs = pre @ p @ suf"
    then obtain pre suf where e: "c # cs = pre @ p @ suf" by blast
    show "prefix p (c # cs) \<or> (\<exists>pre suf. cs = pre @ p @ suf)"
    proof (cases pre)
      case Nil
      with e show ?thesis by (auto simp: prefix_def)
    next
      case (Cons a pre')
      with e have "cs = pre' @ p @ suf" by simp
      then show ?thesis by blast
    qed
  next
    assume "prefix p (c # cs) \<or> (\<exists>pre suf. cs = pre @ p @ suf)"
    then show "\<exists>pre suf. c # cs = pre @ p @ suf"
    proof
      assume "prefix p (c # cs)"
      then obtain suf where "c # cs = p @ suf" by (auto simp: prefix_def)
      then have "c # cs = [] @ p @ suf" by simp
      then show ?thesis by blast
    next
      assume "\<exists>pre suf. cs = pre @ p @ suf"
      then obtain pre suf where "cs = pre @ p @ suf" by blast
      then have "c # cs = (c # pre) @ p @ suf" by simp
      then show ?thesis by blast
    qed
  qed
  with Cons show ?case by simp
qed

lemma str_contains_sublist: "str_contains p s \<longleftrightarrow> sublist p s"
  by (simp add: str_contains_iff sublist_def)

text \<open>
  The example databases are what the constructor builds from the three fields the API
  sends, and the subject of a description is the description without its boilerplate.
\<close>

lemma example_databases_built:
  "example_databases =
     [DatabaseModel_init ''REST API access to PubMLST Neisseria spp. isolates database''
        ''https://rest.pubmlst.org/db/pubmlst_neisseria_isolates''
        ''pubmlst_neisseria_isolates'' None None,
      DatabaseModel_init ''REST API access to PubMLST Neisseria spp. seqdef database''
        ''https://rest.pubmlst.org/db/pubmlst_neisseria_seqdef''
        ''pubmlst_neisseria_seqdef'' None None,
      DatabaseModel_init ''REST API access to PubMLST rMLST seqdef database''
        ''https://rest.pubmlst.org/db/pubmlst_rmlst_seqdef''
        ''pubmlst_rmlst_seqdef'' None None]"
  by code_simp

lemma parse_subject_example:
  "db_subject (DatabaseModel_init
      ''REST API access to PubMLST Neisseria spp. sequence/profile definitions database''
      ''https://rest.pubmlst.org/db/pubmlst_neisseria_seqdef'' ''pubmlst_neisseria_seqdef''
      None None) = Some ''PubMLST Neisseria spp.''"
  by code_simp

text \<open>
  C5. The category a database gets at construction is \<open>seqdef\<close> when its name contains
  "seqdef", \<open>isolates\<close> when it contains "isolates" but not "seqdef", and \<open>others\<close>
  otherwise. The category a scheme (and a full scheme) gets at construction is \<open>cgMLST\<close>
  when its description contains "cgMLST", \<open>MLST\<close> when it contains "MLST" but not "cgMLST",
  and \<open>others\<close> otherwise. Whatever category or subject is passed in is overwritten.
\<close>

theorem category_derivation:
  "(sublist ''seqdef'' name \<longrightarrow>
      db_category (DatabaseModel_init description href name c s)
        = Some (DatabaseCategory_value SEQDEF))
   \<and> (\<not> sublist ''seqdef'' name \<and> sublist ''isolates'' name \<longrightarrow>
      db_category (DatabaseModel_init description href name c s)
        = Some (DatabaseCategory_value ISOLATES))
   \<and> (\<not> sublist ''seqdef'' name \<and> \<not> sublist ''isolates'' name \<longrightarrow>
      db_category (DatabaseModel_init description href name c s)
        = Some (DatabaseCategory_value DB_OTHERS))
   \<and> (sublist ''cgMLST'' description \<longrightarrow>
      determine_category description = SchemeCategory_value CGMLST)
   \<and> (\<not> sublist ''cgMLST'' description \<and> sublist ''MLST'' description \<longrightarrow>
      determine_category description = SchemeCategory_value MLST)
   \<and> (\<not> sublist ''cgMLST'' description \<and> \<not> sublist ''MLST'' description \<longrightarrow>
      determine_category description = SchemeCategory_value OTHERS)
   \<and> sch_category (SchemeModel_init scheme description c q)
        = Some (determine_category description)
   \<and> fs_category (FullSchemeModel_post_init (fs\<lparr>fs_description := description\<rparr>))
        = Some (determine_category description)"
  by (simp add: DatabaseModel_init_def DatabaseModel_post_init_def Let_def
      DatabaseModel_determine_category_def determine_category_def SchemeModel_init_def
      SchemeModel_post_init_def FullSchemeModel_post_init_def str_contains_sublist)

theorem category_derivation_witness:
  "sublist ''seqdef'' ''pubmlst_neisseria_seqdef''
   \<and> db_category (DatabaseModel_init ''N. gonorrhoeae cgMLST v1.0'' ''h''
         ''pubmlst_neisseria_seqdef'' None None)
       = Some ''seqdef''
   \<and> \<not> sublist ''seqdef'' ''pubmlst_neisseria_isolates''
   \<and> sublist ''isolates'' ''pubmlst_neisseria_isolates''
   \<and> db_category (DatabaseModel_init ''MLST (Oxford)'' ''h''
         ''pubmlst_neisseria_isolates'' None None)
       = Some ''isolates''
   \<and> \<not> sublist ''seqdef'' ''pubmlst_rmlst'' \<and> \<not> sublist ''isolates'' ''pubmlst_rmlst''
   \<and> db_category (DatabaseModel_init ''Finetyping antigens'' ''h'' ''pubmlst_rmlst'' None None)
       = Some ''others''
   \<and> sublist ''cgMLST'' ''N. gonorrhoeae cgMLST v1.0''
   \<and> determine_category ''N. gonorrhoeae cgMLST v1.0'' = ''cgMLST''
   \<and> \<not> sublist ''cgMLST'' ''MLST (Oxford)'' \<and> sublist ''MLST'' ''MLST (Oxford)''
   \<and> determine_category ''MLST (Oxford)'' = ''MLST''
   \<and> \<not> sublist ''cgMLST'' ''Finetyping antigens'' \<and> \<not> sublist ''MLST'' ''Finetyping antigens''
   \<and> determine_category ''Finetyping antigens'' = ''others''"
  using category_derivation [where name = "''pubmlst_neisseria_seqdef''" and href = "''h''"
          and c = None and s = None and description = "''N. gonorrhoeae cgMLST v1.0''"]
        category_derivation [where name = "''pubmlst_neisseria_isolates''" and href = "''h''"
          and c = None and s = None and description = "''MLST (Oxford)''"]
        category_derivation [where name = "''pubmlst_rmlst''" and href = "''h''"
          and c = None and s = None and description = "''Finetyping antigens''"]
  by (simp add: str_contains_sublist [symmetric])

section \<open>The collection container\<close>

text \<open>
  C6. \<open>from_list_of_model_lists([L1, L2])\<close> is one collection of the class it is called on,
  whose content is the content of \<open>L1\<close> followed by the content of \<open>L2\<close>, each in its own
  order, so its length is \<open>len(L1) + len(L2)\<close>. For any number of collections the content
  is the concatenation of theirs.
\<close>

theorem from_list_of_model_lists_two:
  "from_list_of_model_lists cls [L1, L2] = ModelList_init cls (data L1 @ data L2)
   \<and> ml_class (from_list_of_model_lists cls [L1, L2]) = cls
   \<and> data (from_list_of_model_lists cls [L1, L2]) = data L1 @ data L2
   \<and> length (data (from_list_of_model_lists cls [L1, L2]))
       = length (data L1) + length (data L2)
   \<and> data (from_list_of_model_lists cls Ls) = concat (map data Ls)"
  by (simp add: from_list_of_model_lists_def ModelList_init_def)

text \<open>
  C9. A search whose pattern is the empty string, with no category, returns a collection of
  the same class whose content is the content of the collection, every element in its
  place: the empty pattern is not applied as a filter, whatever \<open>exact_match\<close> and
  \<open>use_regex\<close> are, and the result is that of a search with no pattern. On the three
  example databases an exact search for the empty name returns all three, although none
  of them has the empty name.
\<close>

theorem search_empty_pattern:
  "search re C attr (Some []) None exact_match use_regex
     = Inr \<lparr>ml_class = ml_class C, data = data C, model = get_model (ml_class C)\<rparr>
   \<and> search re C attr None None exact_match use_regex
     = Inr \<lparr>ml_class = ml_class C, data = data C, model = get_model (ml_class C)\<rparr>
   \<and> search literal_re
         \<lparr>ml_class = DatabaseList, data = map PDatabase example_databases,
          model = C_DatabaseModel\<rparr> ''name'' (Some '''') None True False
     = Inr \<lparr>ml_class = DatabaseList,
            data = [PDatabase (example_databases ! 0), PDatabase (example_databases ! 1),
                    PDatabase (example_databases ! 2)],
            model = C_DatabaseModel\<rparr>"
  by (simp add: search_def truthy_def ModelList_init_def example_databases_def)

text \<open>
  C2 (the code diverges). Building a collection stores whatever list it is given: a
  \<open>DatabaseList\<close> built from a list holding a scheme is returned with that scheme in it,
  although \<open>__post_init__\<close>, run by hand on the result, raises \<open>TypeError\<close>, and \<open>append\<close> and
  \<open>extend\<close> refuse the same element.
\<close>

theorem ModelList_init_skips_validation:
  "data (ModelList_init cls xs) = xs
   \<and> ModelList_init DatabaseList [PScheme example_scheme]
       = \<lparr>ml_class = DatabaseList, data = [PScheme example_scheme], model = C_DatabaseModel\<rparr>
   \<and> ModelList_post_init (ModelList_init DatabaseList [PScheme example_scheme]) = Inl TypeError
   \<and> ModelList_append (ModelList_init DatabaseList []) (PScheme example_scheme) = Inl ValueError
   \<and> ModelList_extend (ModelList_init DatabaseList []) (PList [PScheme example_scheme]) = Inl TypeError"
  by (simp add: ModelList_init_def ModelList_post_init_def validate_input_def
      ModelList_append_def ModelList_extend_def)

subsection \<open>Search\<close>

lemma filter_exn_total:
  "\<forall>x\<in>set xs. P x = Inr (Q x) \<Longrightarrow> filter_exn P xs = Inr (filter Q xs)"
  by (induction xs) auto

text \<open>
  C1, as stated, fails: an attribute can be present on every element and hold \<open>None\<close>
  (\<open>long_description\<close> of a resource is optional), and then a substring search raises
  \<open>TypeError\<close> instead of returning a collection.
\<close>

theorem search_substring_on_None:
  "search literal_re (ModelList_init ResourceList [PResource example_resource])
     ''long_description'' (Some ''Neisseria'') None False False = Inl TypeError"
  by (simp add: search_def truthy_def search_pattern_def ModelList_init_def with_attr_def
      example_resource_def py_in_def opt_str_def)

lemma search_filters:
  assumes present: "\<forall>d\<in>set (data C). \<exists>v. getattr d attr = Inr v"
      and nonempty: "p \<noteq> []"
      and cat: "truthy category \<longrightarrow> (\<forall>d\<in>set (data C). \<exists>v. getattr d ''category'' = Inr v)"
  shows
    "search re C attr (Some p) category True False
       = Inr (ModelList_init (ml_class C)
           (filter (\<lambda>d. getattr d attr = Inr (PStr p)
                       \<and> (truthy category \<longrightarrow> getattr d ''category'' = Inr (PStr (the category))))
              (data C)))
     \<and> ((\<forall>d\<in>set (data C). \<exists>s. getattr d attr = Inr (PStr s)) \<longrightarrow>
          search re C attr (Some p) category False False
            = Inr (ModelList_init (ml_class C)
                (filter (\<lambda>d. (\<exists>s. getattr d attr = Inr (PStr s) \<and> sublist p s)
                            \<and> (truthy category \<longrightarrow> getattr d ''category'' = Inr (PStr (the category))))
                   (data C))))
     \<and> ((\<forall>d\<in>set (data C). \<exists>s. getattr d attr = Inr (PStr s)) \<and> re_compile re p = Some rx \<longrightarrow>
          search re C attr (Some p) category exact_match True
            = Inr (ModelList_init (ml_class C)
                (filter (\<lambda>d. (\<exists>s. getattr d attr = Inr (PStr s) \<and> re_search re rx s)
                            \<and> (truthy category \<longrightarrow> getattr d ''category'' = Inr (PStr (the category))))
                   (data C))))"
proof -
  let ?catP = "\<lambda>d. with_attr d ''category'' (\<lambda>v. Inr (py_eq (the category) v))"
  let ?catQ = "\<lambda>d. truthy category \<longrightarrow> getattr d ''category'' = Inr (PStr (the category))"
  have catstep: "(if truthy category then filter_exn ?catP xs else Inr xs)
                   = Inr (filter ?catQ xs)" if "set xs \<subseteq> set (data C)" for xs
  proof (cases "truthy category")
    case True
    have "\<forall>d\<in>set xs. ?catP d = Inr (?catQ d)"
    proof
      fix d assume "d \<in> set xs"
      with that cat True obtain v where "getattr d ''category'' = Inr v" by blast
      with True show "?catP d = Inr (?catQ d)" by (auto simp: with_attr_def py_eq_def)
    qed
    then show ?thesis using True by (simp add: filter_exn_total)
  next
    case False
    then show ?thesis by simp
  qed
  have tp: "truthy (Some p)" using nonempty by (simp add: truthy_def)
  have exact: "filter_exn (\<lambda>d. with_attr d attr (\<lambda>v. Inr (py_eq p v))) (data C)
                 = Inr (filter (\<lambda>d. getattr d attr = Inr (PStr p)) (data C))"
  proof (rule filter_exn_total, rule ballI)
    fix d assume "d \<in> set (data C)"
    with present obtain v where "getattr d attr = Inr v" by blast
    then show "with_attr d attr (\<lambda>v. Inr (py_eq p v)) = Inr (getattr d attr = Inr (PStr p))"
      by (auto simp: with_attr_def py_eq_def)
  qed
  have sub: "filter_exn (\<lambda>d. with_attr d attr (py_in p)) (data C)
                 = Inr (filter (\<lambda>d. \<exists>s. getattr d attr = Inr (PStr s) \<and> sublist p s) (data C))"
    if strs: "\<forall>d\<in>set (data C). \<exists>s. getattr d attr = Inr (PStr s)"
  proof (rule filter_exn_total, rule ballI)
    fix d assume "d \<in> set (data C)"
    with strs obtain s where "getattr d attr = Inr (PStr s)" by blast
    then show "with_attr d attr (py_in p)
                = Inr (\<exists>s. getattr d attr = Inr (PStr s) \<and> sublist p s)"
      by (auto simp: with_attr_def py_in_def str_contains_sublist)
  qed
  have rx: "filter_exn (\<lambda>d. with_attr d attr (regex_search re rx)) (data C)
                 = Inr (filter (\<lambda>d. \<exists>s. getattr d attr = Inr (PStr s) \<and> re_search re rx s) (data C))"
    if strs: "\<forall>d\<in>set (data C). \<exists>s. getattr d attr = Inr (PStr s)"
  proof (rule filter_exn_total, rule ballI)
    fix d assume "d \<in> set (data C)"
    with strs obtain s where "getattr d attr = Inr (PStr s)" by blast
    then show "with_attr d attr (regex_search re rx)
                = Inr (\<exists>s. getattr d attr = Inr (PStr s) \<and> re_search re rx s)"
      by (auto simp: with_attr_def regex_search_def)
  qed
  have c1: "search re C attr (Some p) category True False
       = Inr (ModelList_init (ml_class C)
           (filter (\<lambda>d. getattr d attr = Inr (PStr p) \<and> ?catQ d) (data C)))"
    using tp exact catstep [of "filter (\<lambda>d. getattr d attr = Inr (PStr p)) (data C)"]
    by (simp add: search_def search_pattern_def)
  have c2: "search re C attr (Some p) category False False
       = Inr (ModelList_init (ml_class C)
           (filter (\<lambda>d. (\<exists>s. getattr d attr = Inr (PStr s) \<and> sublist p s) \<and> ?catQ d)
              (data C)))"
    if strs: "\<forall>d\<in>set (data C). \<exists>s. getattr d attr = Inr (PStr s)"
    using tp sub [OF strs]
      catstep [of "filter (\<lambda>d. \<exists>s. getattr d attr = Inr (PStr s) \<and> sublist p s) (data C)"]
    by (simp add: search_def search_pattern_def)
  have c3: "search re C attr (Some p) category exact_match True
       = Inr (ModelList_init (ml_class C)
           (filter (\<lambda>d. (\<exists>s. getattr d attr = Inr (PStr s) \<and> re_search re rx s) \<and> ?catQ d)
              (data C)))"
    if strs: "\<forall>d\<in>set (data C). \<exists>s. getattr d attr = Inr (PStr s)"
      and comp: "re_compile re p = Some rx"
    using tp comp rx [OF strs]
      catstep [of "filter (\<lambda>d. \<exists>s. getattr d attr = Inr (PStr s) \<and> re_search re rx s) (data C)"]
    by (simp add: search_def search_pattern_def)
  from c1 c2 c3 show ?thesis by blast
qed

text \<open>
  C1, amended. Let \<open>attr\<close> be present on every element of the collection and \<open>p\<close> be a
  non-empty pattern; if a non-empty category is given, let every element have a
  \<open>category\<close> attribute. Then an exact search returns a collection of the same class with
  exactly the elements whose attribute is the string \<open>p\<close>. When moreover the attribute is a
  string on every element, a substring search returns exactly the elements whose attribute
  contains \<open>p\<close>, and, when \<open>p\<close> compiles as a regex, a regex search returns exactly the
  elements whose attribute the compiled regex matches somewhere. Each time a non-empty
  category restricts the result further to the elements whose category is that string,
  and the elements keep the order of the collection.
\<close>

theorem search_semantics:
  assumes present: "\<forall>d\<in>set (data C). \<exists>v. getattr d attr = Inr v"
      and nonempty: "p \<noteq> []"
      and cat: "truthy category \<longrightarrow> (\<forall>d\<in>set (data C). \<exists>v. getattr d ''category'' = Inr v)"
  shows
    "search re C attr (Some p) category True False
       = Inr \<lparr>ml_class = ml_class C,
              data = filter (\<lambda>d. getattr d attr = Inr (PStr p)
                       \<and> (truthy category \<longrightarrow> getattr d ''category'' = Inr (PStr (the category))))
                     (data C),
              model = get_model (ml_class C)\<rparr>
     \<and> ((\<forall>d\<in>set (data C). \<exists>s. getattr d attr = Inr (PStr s)) \<longrightarrow>
          search re C attr (Some p) category False False
            = Inr \<lparr>ml_class = ml_class C,
                   data = filter (\<lambda>d. (\<exists>s. getattr d attr = Inr (PStr s) \<and> sublist p s)
                            \<and> (truthy category \<longrightarrow> getattr d ''category'' = Inr (PStr (the category))))
                          (data C),
                   model = get_model (ml_class C)\<rparr>)
     \<and> ((\<forall>d\<in>set (data C). \<exists>s. getattr d attr = Inr (PStr s)) \<and> re_compile re p = Some rx \<longrightarrow>
          search re C attr (Some p) category exact_match True
            = Inr \<lparr>ml_class = ml_class C,
                   data = filter (\<lambda>d. (\<exists>s. getattr d attr = Inr (PStr s) \<and> re_search re rx s)
                            \<and> (truthy category \<longrightarrow> getattr d ''category'' = Inr (PStr (the category))))
                          (data C),
                   model = get_model (ml_class C)\<rparr>)"
  using search_filters [OF present nonempty cat, of re rx exact_match]
  by (simp add: ModelList_init_def)

theorem search_semantics_witness:
  "map (\<lambda>d. getattr d ''name'') (map PDatabase example_databases)
     = [Inr (PStr ''pubmlst_neisseria_isolates''), Inr (PStr ''pubmlst_neisseria_seqdef''),
        Inr (PStr ''pubmlst_rmlst_seqdef'')]
   \<and> map (\<lambda>d. getattr d ''category'') (map PDatabase example_databases)
     = [Inr (PStr ''isolates''), Inr (PStr ''seqdef''), Inr (PStr ''seqdef'')]
   \<and> re_compile literal_re ''seqdef'' = Some ''seqdef''
   \<and> search literal_re
         \<lparr>ml_class = DatabaseList, data = map PDatabase example_databases,
          model = C_DatabaseModel\<rparr>
         ''name'' (Some ''pubmlst_rmlst_seqdef'') None True False
       = Inr \<lparr>ml_class = DatabaseList, data = [PDatabase (example_databases ! 2)],
              model = C_DatabaseModel\<rparr>
   \<and> search literal_re
         \<lparr>ml_class = DatabaseList, data = map PDatabase example_databases,
          model = C_DatabaseModel\<rparr>
         ''name'' (Some ''neisseria'') None False False
       = Inr \<lparr>ml_class = DatabaseList,
              data = [PDatabase (example_databases ! 0), PDatabase (example_databases ! 1)],
              model = C_DatabaseModel\<rparr>
   \<and> search literal_re
         \<lparr>ml_class = DatabaseList, data = map PDatabase example_databases,
          model = C_DatabaseModel\<rparr>
         ''name'' (Some ''seqdef'') None True True
       = Inr \<lparr>ml_class = DatabaseList,
              data = [PDatabase (example_databases ! 1), PDatabase (example_databases ! 2)],
              model = C_DatabaseModel\<rparr>
   \<and> search literal_re
         \<lparr>ml_class = DatabaseList, data = map PDatabase example_databases,
          model = C_DatabaseModel\<rparr>
         ''name'' (Some ''neisseria'') (Some ''seqdef'') False False
       = Inr \<lparr>ml_class = DatabaseList, data = [PDatabase (example_databases ! 1)],
              model = C_DatabaseModel\<rparr>"
proof -
  let ?C = "\<lparr>ml_class = DatabaseList, data = map PDatabase example_databases,
             model = C_DatabaseModel\<rparr>"
  have strs: "\<forall>d\<in>set (data ?C). \<exists>s. getattr d ''name'' = Inr (PStr s)"
    by (simp add: example_databases_def)
  have pres: "\<forall>d\<in>set (data ?C). \<exists>v. getattr d ''name'' = Inr v"
    by (simp add: example_databases_def)
  have cats: "truthy c \<longrightarrow> (\<forall>d\<in>set (data ?C). \<exists>v. getattr d ''category'' = Inr v)" for c
    by (simp add: example_databases_def)
  have comp: "re_compile literal_re ''seqdef'' = Some ''seqdef''"
    by (simp add: literal_re_def)
  note ev = example_databases_def truthy_def opt_str_def
    literal_re_def str_contains_sublist [symmetric]
  have a: "search literal_re ?C ''name'' (Some ''pubmlst_rmlst_seqdef'') None True False
       = Inr \<lparr>ml_class = DatabaseList, data = [PDatabase (example_databases ! 2)],
              model = C_DatabaseModel\<rparr>"
    using search_semantics [where C = ?C
        and attr = "''name''" and p = "''pubmlst_rmlst_seqdef''" and category = "None"
        and re = literal_re and rx = "''x''" and exact_match = True] pres cats
    by (simp add: ev)
  have b: "search literal_re ?C ''name'' (Some ''neisseria'') None False False
       = Inr \<lparr>ml_class = DatabaseList,
              data = [PDatabase (example_databases ! 0), PDatabase (example_databases ! 1)],
              model = C_DatabaseModel\<rparr>"
    using search_semantics [where C = ?C
        and attr = "''name''" and p = "''neisseria''" and category = "None"
        and re = literal_re and rx = "''x''" and exact_match = True] pres cats strs
    by (simp add: ev)
  have c: "search literal_re ?C ''name'' (Some ''seqdef'') None True True
       = Inr \<lparr>ml_class = DatabaseList,
              data = [PDatabase (example_databases ! 1), PDatabase (example_databases ! 2)],
              model = C_DatabaseModel\<rparr>"
    using search_semantics [where C = ?C
        and attr = "''name''" and p = "''seqdef''" and category = "None"
        and re = literal_re and rx = "''seqdef''" and exact_match = True] pres cats strs
    by (simp add: ev)
  have d: "search literal_re ?C ''name'' (Some ''neisseria'') (Some ''seqdef'') False False
       = Inr \<lparr>ml_class = DatabaseList, data = [PDatabase (example_databases ! 1)],
              model = C_DatabaseModel\<rparr>"
    using search_semantics [where C = ?C
        and attr = "''name''" and p = "''neisseria''" and category = "Some ''seqdef''"
        and re = literal_re and rx = "''x''" and exact_match = True] pres cats strs
    by (simp add: ev)
  have names: "map (\<lambda>d. getattr d ''name'') (map PDatabase example_databases)
     = [Inr (PStr ''pubmlst_neisseria_isolates''), Inr (PStr ''pubmlst_neisseria_seqdef''),
        Inr (PStr ''pubmlst_rmlst_seqdef'')]"
    by (simp add: example_databases_def)
  have categories: "map (\<lambda>d. getattr d ''category'') (map PDatabase example_databases)
     = [Inr (PStr ''isolates''), Inr (PStr ''seqdef''), Inr (PStr ''seqdef'')]"
    by (simp add: example_databases_def opt_str_def)
  from names categories comp a b c d show ?thesis by blast
qed

section \<open>The link navigator\<close>

text \<open>
  C3 (the code diverges). Asking for the alleles of a locus name that is not a key of the
  index raises nothing: the method returns \<open>None\<close>, and the transport is not called.
\<close>

theorem get_alleles_fasta_unknown_locus:
  "map_of (indexed_locis self) loci = None \<Longrightarrow> get_alleles_fasta fetch self loci = Inr None"
  by (simp add: get_alleles_fasta_def)

theorem get_alleles_fasta_unknown_locus_witness:
  "map_of (indexed_locis (FullSchemeApi_init (scheme_with_loci example_loci))) ''nope'' = None
   \<and> get_alleles_fasta (\<lambda>url. Inr url) (FullSchemeApi_init (scheme_with_loci example_loci))
         ''nope'' = (Inr None :: exn + string option)"
  using get_alleles_fasta_unknown_locus
          [of "FullSchemeApi_init (scheme_with_loci example_loci)" "''nope''"
              "\<lambda>url. Inr url :: exn + string"]
  by (simp add: FullSchemeApi_init_def index_loci_def scheme_with_loci_def example_loci_def
      FullSchemeModel_post_init_def locus_key_def)

subsection \<open>The locus index\<close>

lemma py_split_nonempty: "py_split sep s \<noteq> []"
  by (induction s) (auto split: list.splits)

lemma length_py_split: "length (py_split sep s) = Suc (length (filter (\<lambda>c. c = sep) s))"
  by (induction s) (auto split: list.splits)

lemma takeWhile_snoc_sep:
  "takeWhile (\<lambda>c. c \<noteq> sep) (xs @ [sep]) = takeWhile (\<lambda>c. c \<noteq> sep) xs"
  by (induction xs) auto

lemma last_py_split: "last (py_split sep s) = rev (takeWhile (\<lambda>c. c \<noteq> sep) (rev s))"
proof (induction s)
  case Nil show ?case by simp
next
  case (Cons c cs)
  show ?case
  proof (cases "c = sep")
    case True
    then show ?thesis using Cons py_split_nonempty [of sep cs]
      by (simp add: takeWhile_snoc_sep)
  next
    case False
    obtain w ws where sp: "py_split sep cs = w # ws"
      using py_split_nonempty [of sep cs] by (cases "py_split sep cs") auto
    show ?thesis
    proof (cases ws)
      case Nil
      with sp length_py_split [of sep cs] have "filter (\<lambda>c. c = sep) cs = []" by simp
      then have nosep: "\<forall>x\<in>set cs. x \<noteq> sep" by (simp add: filter_empty_conv)
      then have "takeWhile (\<lambda>c. c \<noteq> sep) (rev cs) = rev cs" by simp
      with Cons sp Nil False nosep show ?thesis by (simp add: takeWhile_append)
    next
      case (Cons v vs)
      with sp length_py_split [of sep cs] have "filter (\<lambda>c. c = sep) cs \<noteq> []" by auto
      then have "\<exists>x\<in>set cs. x = sep" by (simp add: filter_empty_conv)
      then have "takeWhile (\<lambda>c. c \<noteq> sep) (rev cs @ [c]) = takeWhile (\<lambda>c. c \<noteq> sep) (rev cs)"
        by (auto simp: takeWhile_append)
      with Cons.IH sp Cons False show ?thesis by simp
    qed
  qed
qed

lemma find_Some_in: "find P xs = Some x \<Longrightarrow> x \<in> set xs \<and> P x"
  by (induction xs) (auto split: if_splits)

lemma foldl_update_keys:
  "fst ` set (foldl (\<lambda>d u. AList.update (k u) u d) d0 us) = fst ` set d0 \<union> k ` set us"
  by (induction us arbitrary: d0) (auto simp: dom_update)

lemma foldl_update_distinct:
  "distinct (map fst d0) \<Longrightarrow> distinct (map fst (foldl (\<lambda>d u. AList.update (k u) u d) d0 us))"
  by (induction us arbitrary: d0) (auto simp: distinct_update)

lemma foldl_update_map_of:
  "map_of (foldl (\<lambda>d u. AList.update (k u) u d) d0 us) x =
     (case find (\<lambda>u. k u = x) (rev us) of Some u \<Rightarrow> Some u | None \<Rightarrow> map_of d0 x)"
  by (induction us rule: rev_induct) (auto simp: update_conv')

lemma foldl_update_map_fst:
  "distinct (map k us) \<Longrightarrow> set (map k us) \<inter> fst ` set d0 = {} \<Longrightarrow>
   map fst (foldl (\<lambda>d u. AList.update (k u) u d) d0 us) = map fst d0 @ map k us"
  by (induction us rule: rev_induct) (auto simp: update_keys foldl_update_keys)

text \<open>
  C7, as stated, fails: the index does not map the final segment of every URL to that URL.
  Two locus URLs with the same final segment share one key, and the key keeps the later
  URL.
\<close>

theorem locus_index_collision:
  "map_of (index_loci (scheme_with_loci
      [''https://rest.pubmlst.org/db/pubmlst_neisseria_seqdef/loci/abcZ'',
       ''https://rest.pubmlst.org/db/pubmlst_neisseria_isolates/loci/abcZ'']))
     (locus_key ''https://rest.pubmlst.org/db/pubmlst_neisseria_seqdef/loci/abcZ'')
   \<noteq> Some ''https://rest.pubmlst.org/db/pubmlst_neisseria_seqdef/loci/abcZ''"
  by (simp add: index_loci_def scheme_with_loci_def FullSchemeModel_post_init_def
      locus_key_def)

text \<open>
  C7, amended. The key of a URL is what follows its final \<open>/\<close>. The keys of the index are
  exactly the keys of the scheme's locus URLs, each once, and \<open>list_loci\<close> returns them; a
  key is mapped to the last URL of the list that has it. When the URLs have pairwise
  distinct keys, the index maps the key of every URL to that URL and \<open>list_loci\<close> returns
  the keys in the order of the URLs.
\<close>

theorem locus_index:
  "set (list_loci (FullSchemeApi_init m)) = locus_key ` set (fs_loci m)
   \<and> distinct (list_loci (FullSchemeApi_init m))
   \<and> locus_key url = rev (takeWhile (\<lambda>c. c \<noteq> CHR ''/'') (rev url))
   \<and> map_of (indexed_locis (FullSchemeApi_init m)) k
       = find (\<lambda>url. locus_key url = k) (rev (fs_loci m))
   \<and> (distinct (map locus_key (fs_loci m)) \<longrightarrow>
        (\<forall>url \<in> set (fs_loci m).
           map_of (indexed_locis (FullSchemeApi_init m)) (locus_key url) = Some url)
        \<and> list_loci (FullSchemeApi_init m) = map locus_key (fs_loci m))"
proof -
  let ?ix = "indexed_locis (FullSchemeApi_init m)"
  have ix: "?ix = foldl (\<lambda>d u. AList.update (locus_key u) u d) [] (fs_loci m)"
    by (simp add: FullSchemeApi_init_def index_loci_def)
  have keys: "set (list_loci (FullSchemeApi_init m)) = locus_key ` set (fs_loci m)"
    unfolding list_loci_def ix using foldl_update_keys [of locus_key "[]" "fs_loci m"]
    by simp
  have dist: "distinct (list_loci (FullSchemeApi_init m))"
    unfolding list_loci_def ix by (rule foldl_update_distinct) simp
  have key: "locus_key url = rev (takeWhile (\<lambda>c. c \<noteq> CHR ''/'') (rev url))"
    by (simp add: locus_key_def last_py_split)
  have look: "map_of ?ix x = find (\<lambda>url. locus_key url = x) (rev (fs_loci m))" for x
    unfolding ix by (simp add: foldl_update_map_of split: option.splits)
  have inj: "(\<forall>url \<in> set (fs_loci m). map_of ?ix (locus_key url) = Some url)
             \<and> list_loci (FullSchemeApi_init m) = map locus_key (fs_loci m)"
    if d: "distinct (map locus_key (fs_loci m))"
  proof
    show "\<forall>url \<in> set (fs_loci m). map_of ?ix (locus_key url) = Some url"
    proof
      fix url assume u: "url \<in> set (fs_loci m)"
      have "find (\<lambda>v. locus_key v = locus_key url) (rev (fs_loci m)) = Some url"
      proof (cases "find (\<lambda>v. locus_key v = locus_key url) (rev (fs_loci m))")
        case None
        with u show ?thesis by (auto simp: find_None_iff)
      next
        case (Some v)
        then have "v \<in> set (fs_loci m)" and "locus_key v = locus_key url"
          using find_Some_in [of "\<lambda>v. locus_key v = locus_key url" "rev (fs_loci m)" v]
          by auto
        with d u have "v = url" by (meson distinct_map inj_onD)
        with Some show ?thesis by simp
      qed
      with look [of "locus_key url"] show "map_of ?ix (locus_key url) = Some url"
        by simp
    qed
    show "list_loci (FullSchemeApi_init m) = map locus_key (fs_loci m)"
      unfolding list_loci_def ix using foldl_update_map_fst [of locus_key "fs_loci m" "[]"] d
      by simp
  qed
  from keys dist key look [of k] inj show ?thesis by blast
qed

theorem locus_index_witness:
  "distinct (map locus_key (fs_loci (scheme_with_loci example_loci)))
   \<and> list_loci (FullSchemeApi_init (scheme_with_loci example_loci)) = [''abc123'', ''xyz789'']
   \<and> map_of (indexed_locis (FullSchemeApi_init (scheme_with_loci example_loci))) ''abc123''
       = Some ''https://rest.pubmlst.org/db/pubmlst_neisseria_seqdef/loci/abc123''
   \<and> map_of (indexed_locis (FullSchemeApi_init (scheme_with_loci example_loci))) ''xyz789''
       = Some ''https://rest.pubmlst.org/db/pubmlst_neisseria_seqdef/loci/xyz789''"
  using locus_index [of "scheme_with_loci example_loci"]
  by (simp add: scheme_with_loci_def example_loci_def FullSchemeModel_post_init_def
      locus_key_def)

section \<open>Entities built from JSON\<close>

lemma bind_exn_Inr: "bind_exn m f = Inr r \<longleftrightarrow> (\<exists>a. m = Inr a \<and> f a = Inr r)"
  by (cases m) (simp_all add: bind_exn_def)

lemma defaulted_field_head:
  "defaulted_field V v ((n, PStr k) # kw) n
     = (case v (PStr k) of None \<Rightarrow> Inl ValidationError | Some a \<Rightarrow> Inr (Some a))"
  by (simp add: defaulted_field_def)

lemma tagged_allele_name:
  assumes "AlleleExactResult_tagged V k m = Inr r" and "v_str V (PStr k) = Some k"
  shows "aer_allele_name r = Some k"
proof -
  from assms(1) obtain kw where
    new: "AlleleExactResult_new V ((''allele_name'', PStr k) # kw) = Inr r"
    by (auto simp: AlleleExactResult_tagged_def split: pyobj.splits if_splits)
  then show ?thesis
    using assms(2)
    by (auto simp: AlleleExactResult_new_def bind_exn_Inr defaulted_field_head)
qed

lemma map_exn_total:
  "\<forall>x\<in>set xs. \<exists>y. f x = Inr y \<Longrightarrow> map_exn f xs = Inr (map (\<lambda>x. projr (f x)) xs)"
  by (induction xs) auto

lemma flatten_matches_groups:
  assumes "\<forall>(k, ms)\<in>set groups. \<forall>m\<in>set ms. \<exists>r. AlleleExactResult_tagged V k m = Inr r"
  shows "flatten_matches V (map (\<lambda>(k, ms). (k, PList ms)) groups)
           = Inr (concat (map (\<lambda>(k, ms). map (\<lambda>m. projr (AlleleExactResult_tagged V k m)) ms)
                    groups))"
  using assms
proof (induction groups)
  case Nil
  show ?case by simp
next
  case (Cons g groups)
  obtain k ms where g: "g = (k, ms)" by (cases g)
  from Cons.prems g have "\<forall>m\<in>set ms. \<exists>r. AlleleExactResult_tagged V k m = Inr r" by simp
  then have "map_exn (AlleleExactResult_tagged V k) ms
               = Inr (map (\<lambda>m. projr (AlleleExactResult_tagged V k m)) ms)"
    by (rule map_exn_total)
  moreover from Cons have "flatten_matches V (map (\<lambda>(k, ms). (k, PList ms)) groups)
           = Inr (concat (map (\<lambda>(k, ms). map (\<lambda>m. projr (AlleleExactResult_tagged V k m)) ms)
                    groups))" by simp
  ultimately show ?case using g by (simp add: iterate_def)
qed

lemma tags_of_group:
  assumes "\<forall>m\<in>set ms. \<exists>r. AlleleExactResult_tagged V k m = Inr r"
      and "v_str V (PStr k) = Some k"
  shows "map aer_allele_name (map (\<lambda>m. projr (AlleleExactResult_tagged V k m)) ms)
           = replicate (length ms) (Some k)"
  using assms
proof (induction ms)
  case Nil
  show ?case by simp
next
  case (Cons m ms)
  then obtain r where r: "AlleleExactResult_tagged V k m = Inr r" by auto
  from r Cons.prems(2) have "aer_allele_name r = Some k" by (rule tagged_allele_name)
  with r Cons show ?case by simp
qed

lemma map_exn_Inr:
  "map_exn f xs = Inr ys \<Longrightarrow>
     length ys = length xs \<and> (\<forall>i<length xs. f (xs ! i) = Inr (ys ! i))"
proof (induction xs arbitrary: ys)
  case Nil
  then show ?case by simp
next
  case (Cons x xs)
  from Cons.prems obtain y ys' where y: "f x = Inr y" and r: "map_exn f xs = Inr ys'"
    and ys: "ys = y # ys'"
    by (auto split: sum.splits)
  from Cons.IH [OF r] y ys show ?case by (auto simp: nth_Cons split: nat.splits)
qed

lemma map_exn_Inl:
  assumes "\<exists>x\<in>set xs. \<exists>e. f x = Inl e"
  shows "\<exists>e. map_exn f xs = Inl e"
proof (rule ccontr)
  assume "\<not> (\<exists>e. map_exn f xs = Inl e)"
  then obtain ys where "map_exn f xs = Inr ys" by (cases "map_exn f xs") auto
  from map_exn_Inr [OF this] have "\<forall>i<length xs. f (xs ! i) = Inr (ys ! i)" by simp
  with assms show False by (auto simp: in_set_conv_nth)
qed

text \<open>
  C8. The resource-index assembler, given a list, builds the collection model with that
  list as the \<open>resources\<close> keyword. When the list validates and each of its values builds
  a resource, the result holds a \<open>ResourceList\<close> whose content is exactly those resources,
  one per value and in the order of the list; when one of the values does not build a
  resource, the result is a \<open>ValueError\<close>. Given anything that is not a list, a mapping
  included, it fails with \<open>ValueError\<close>.
\<close>

theorem resource_index_from_json:
  "ApiResourceCollectionModel_from_json V (PList xs)
     = ApiResourceCollectionModel_new V [(''resources'', PList xs)]
   \<and> ((\<forall>xs. json \<noteq> PList xs) \<longrightarrow> ApiResourceCollectionModel_from_json V json = Inl ValueError)
   \<and> (v_list_dict V (PList xs) = Some ys
        \<and> map_exn (unpack (ApiResourceModel_new V)) ys = Inr rs \<longrightarrow>
       ApiResourceCollectionModel_from_json V (PList xs)
         = Inr \<lparr>resources = \<lparr>ml_class = ResourceList, data = map PResource rs,
                             model = C_ApiResourceModel\<rparr>\<rparr>
       \<and> length rs = length ys
       \<and> (\<forall>i<length ys. unpack (ApiResourceModel_new V) (ys ! i) = Inr (rs ! i)))
   \<and> (v_list_dict V (PList xs) = Some ys
        \<and> (\<exists>y\<in>set ys. \<exists>e. unpack (ApiResourceModel_new V) y = Inl e) \<longrightarrow>
       ApiResourceCollectionModel_from_json V (PList xs) = Inl ValueError)"
proof -
  have a: "ApiResourceCollectionModel_from_json V (PList xs)
     = ApiResourceCollectionModel_new V [(''resources'', PList xs)]"
    by (simp add: ApiResourceCollectionModel_from_json_def)
  have b: "ApiResourceCollectionModel_from_json V json = Inl ValueError"
    if "\<forall>xs. json \<noteq> PList xs"
    using that by (cases json) (auto simp: ApiResourceCollectionModel_from_json_def)
  have c: "ApiResourceCollectionModel_from_json V (PList xs)
         = Inr \<lparr>resources = \<lparr>ml_class = ResourceList, data = map PResource rs,
                             model = C_ApiResourceModel\<rparr>\<rparr>
       \<and> length rs = length ys
       \<and> (\<forall>i<length ys. unpack (ApiResourceModel_new V) (ys ! i) = Inr (rs ! i))"
    if "v_list_dict V (PList xs) = Some ys"
      and m: "map_exn (unpack (ApiResourceModel_new V)) ys = Inr rs"
    using that map_exn_Inr [OF m]
    by (simp add: ApiResourceCollectionModel_from_json_def ApiResourceCollectionModel_new_def
        bind_exn_def bind_args_def defaulted_field_def set_list_model_def ModelList_init_def)
  have d: "ApiResourceCollectionModel_from_json V (PList xs) = Inl ValueError"
    if v: "v_list_dict V (PList xs) = Some ys"
      and bad: "\<exists>y\<in>set ys. \<exists>e. unpack (ApiResourceModel_new V) y = Inl e"
  proof -
    from map_exn_Inl [OF bad] obtain e where
      "map_exn (unpack (ApiResourceModel_new V)) ys = Inl e" by blast
    with v show ?thesis
      by (simp add: ApiResourceCollectionModel_from_json_def ApiResourceCollectionModel_new_def
        bind_exn_def bind_args_def defaulted_field_def set_list_model_def)
  qed
  from a b c d show ?thesis by blast
qed

theorem resource_index_from_json_witness:
  "(\<forall>xs. PDict [(''resources'', example_resources_json)] \<noteq> PList xs)
   \<and> ApiResourceCollectionModel_from_json json_types
         (PDict [(''resources'', example_resources_json)]) = Inl ValueError
   \<and> ApiResourceCollectionModel_from_json json_types example_resources_json
       = Inr \<lparr>resources =
           \<lparr>ml_class = ResourceList,
            data =
              [PResource
                \<lparr>res_databases =
                   [DatabaseModel_init
                      ''REST API access to PubMLST Neisseria spp. isolates database''
                      ''https://rest.pubmlst.org/db/pubmlst_neisseria_isolates''
                      ''pubmlst_neisseria_isolates'' None None],
                 res_description = ''Neisseria spp.'', res_name = ''neisseria'',
                 res_long_description = None\<rparr>],
            model = C_ApiResourceModel\<rparr>\<rparr>
   \<and> v_list_dict json_types (PList [PDict []]) = Some [PDict []]
   \<and> unpack (ApiResourceModel_new json_types) (PDict []) = Inl TypeError
   \<and> ApiResourceCollectionModel_from_json json_types (PList [PDict []]) = Inl ValueError"
proof -
  note ev = json_types_def unpack_def ApiResourceModel_new_def DatabaseModel_new_def
    bind_exn_def bind_args_def required_field_def optional_field_def set_list_model_def
  obtain xs where xs: "example_resources_json = PList xs"
    by (simp add: example_resources_json_def)
  have v: "v_list_dict json_types (PList xs) = Some xs"
    using xs by (auto simp: example_resources_json_def json_types_def)
  let ?rs = "[\<lparr>res_databases =
                [DatabaseModel_init
                   ''REST API access to PubMLST Neisseria spp. isolates database''
                   ''https://rest.pubmlst.org/db/pubmlst_neisseria_isolates''
                   ''pubmlst_neisseria_isolates'' None None],
              res_description = ''Neisseria spp.'', res_name = ''neisseria'',
              res_long_description = None\<rparr>]"
  have m: "map_exn (unpack (ApiResourceModel_new json_types)) xs = Inr ?rs"
    using xs by (auto simp: example_resources_json_def ev)
  note inst = resource_index_from_json
      [where V = json_types and json = "PDict [(''resources'', example_resources_json)]"
         and xs = xs and ys = xs and rs = ?rs]
  from inst have c2: "ApiResourceCollectionModel_from_json json_types
         (PDict [(''resources'', example_resources_json)]) = Inl ValueError"
    by blast
  from inst v m have c3: "ApiResourceCollectionModel_from_json json_types (PList xs)
         = Inr \<lparr>resources = \<lparr>ml_class = ResourceList, data = map PResource ?rs,
                             model = C_ApiResourceModel\<rparr>\<rparr>"
    by blast
  have v': "v_list_dict json_types (PList [PDict []]) = Some [PDict []]"
    by (simp add: json_types_def)
  have bad: "unpack (ApiResourceModel_new json_types) (PDict []) = Inl TypeError"
    by (simp add: ev)
  have ex: "\<exists>y\<in>set [PDict []]. \<exists>e. unpack (ApiResourceModel_new json_types) y = Inl e"
    using bad by simp
  from resource_index_from_json
      [where V = json_types and json = PNone and xs = "[PDict []]" and ys = "[PDict []]"
         and rs = "[]"] v' ex
  have c4: "ApiResourceCollectionModel_from_json json_types (PList [PDict []]) = Inl ValueError"
    by blast
  from c2 c3 c4 v' bad xs show ?thesis by simp
qed

lemma post_init_flattens:
  assumes ok: "\<forall>(k, ms)\<in>set groups. \<forall>m\<in>set ms. \<exists>r. AlleleExactResult_tagged V k m = Inr r"
      and str: "\<forall>(k, ms)\<in>set groups. v_str V (PStr k) = Some k"
  shows "\<exists>res.
           SequenceQueryResult_post_init V
             \<lparr>raw_exact_matches = Some (map (\<lambda>(k, ms). (k, PList ms)) groups),
              raw_partial_matches = pm, raw_fields = fs\<rparr> = Inr res
         \<and> sqr_exact_matches res
             = concat (map (\<lambda>(k, ms). map (\<lambda>m. projr (AlleleExactResult_tagged V k m)) ms)
                 groups)
         \<and> map aer_allele_name (sqr_exact_matches res)
             = concat (map (\<lambda>(k, ms). replicate (length ms) (Some k)) groups)
         \<and> length (sqr_exact_matches res) = sum_list (map (\<lambda>(k, ms). length ms) groups)
         \<and> sqr_partial_matches res = pm \<and> sqr_fields res = fs"
proof -
  let ?out = "concat (map (\<lambda>(k, ms). map (\<lambda>m. projr (AlleleExactResult_tagged V k m)) ms)
                 groups)"
  have names: "map aer_allele_name ?out
                 = concat (map (\<lambda>(k, ms). replicate (length ms) (Some k)) groups)"
    using ok str
  proof (induction groups)
    case Nil
    show ?case by simp
  next
    case (Cons g groups)
    obtain k ms where g: "g = (k, ms)" by (cases g)
    with Cons.prems have "map aer_allele_name (map (\<lambda>m. projr (AlleleExactResult_tagged V k m)) ms)
           = replicate (length ms) (Some k)"
      by (intro tags_of_group) auto
    with Cons g show ?case by simp
  qed
  have len: "length ?out = sum_list (map (\<lambda>(k, ms). length ms) groups)"
    by (induction groups) auto
  show ?thesis
    using flatten_matches_groups [OF ok] names len
    by (simp add: SequenceQueryResult_post_init_def exact_matches_post_init_def bind_exn_def)
qed

text \<open>
  C4. Let the \<open>exact_matches\<close> argument validate to a mapping from locus names to lists
  of match objects, each of them one the \<open>AlleleExactResult\<close> constructor accepts under
  its locus name, and let the validator of a \<open>str\<close> field store a locus name as it is.
  Then building a \<open>SequenceQueryResult\<close> succeeds and \<open>exact_matches\<close> is a flat list:
  the records built from the matches, locus by locus in the order of the mapping and match
  by match in the order of each list, one per match, each with \<open>allele_name\<close> equal to the
  key it came from. The other two fields are as validated.
\<close>

theorem exact_matches_flattened:
  assumes args: "set (map fst kw) \<subseteq> {''exact_matches'', ''partial_matches'', ''fields''}"
      and em: "defaulted_field V (v_dict V) kw ''exact_matches''
                 = Inr (Some (map (\<lambda>(k, ms). (k, PList ms)) groups))"
      and pm: "defaulted_field V (v_dict V) kw ''partial_matches'' = Inr pm"
      and fs: "defaulted_field V (v_dict V) kw ''fields'' = Inr fs"
      and ok: "\<forall>(k, ms)\<in>set groups. \<forall>m\<in>set ms. \<exists>r. AlleleExactResult_tagged V k m = Inr r"
      and str: "\<forall>(k, ms)\<in>set groups. v_str V (PStr k) = Some k"
  shows "\<exists>res.
           SequenceQueryResult_new V kw = Inr res
         \<and> sqr_exact_matches res
             = concat (map (\<lambda>(k, ms). map (\<lambda>m. projr (AlleleExactResult_tagged V k m)) ms)
                 groups)
         \<and> map aer_allele_name (sqr_exact_matches res)
             = concat (map (\<lambda>(k, ms). replicate (length ms) (Some k)) groups)
         \<and> length (sqr_exact_matches res) = sum_list (map (\<lambda>(k, ms). length ms) groups)
         \<and> sqr_partial_matches res = pm \<and> sqr_fields res = fs"
proof -
  have b: "bind_args [''exact_matches'', ''partial_matches'', ''fields''] [] kw = Inr ()"
    using args by (auto simp: bind_args_def list_ex_iff)
  have "SequenceQueryResult_new V kw
          = SequenceQueryResult_post_init V
              \<lparr>raw_exact_matches = Some (map (\<lambda>(k, ms). (k, PList ms)) groups),
               raw_partial_matches = pm, raw_fields = fs\<rparr>"
    by (simp add: SequenceQueryResult_new_def b em pm fs bind_exn_def)
  with post_init_flattens [OF ok str, of pm fs] show ?thesis by simp
qed

theorem exact_matches_flattened_witness:
  "SequenceQueryResult_new json_types [(''exact_matches'', PDict example_exact_matches)]
     = Inr \<lparr>sqr_exact_matches =
              [\<lparr>aer_allele_id = 1, aer_href = None, aer_allele_name = Some ''abc'',
                aer_start = None, aer_end = None, aer_orientation = None, aer_length = None,
                aer_contig = None, aer_linked_data = None\<rparr>,
               \<lparr>aer_allele_id = 2, aer_href = None, aer_allele_name = Some ''xyz'',
                aer_start = None, aer_end = None, aer_orientation = None, aer_length = None,
                aer_contig = None, aer_linked_data = None\<rparr>],
            sqr_partial_matches = None, sqr_fields = None\<rparr>"
proof -
  let ?groups = "[(''abc'', [PDict [(''allele_id'', PInt 1)]]),
                  (''xyz'', [PDict [(''allele_id'', PInt 2)]])]"
  let ?kw = "[(''exact_matches'', PDict example_exact_matches)]"
  note ev = json_types_def AlleleExactResult_tagged_def AlleleExactResult_new_def
    bind_exn_def bind_args_def required_field_def defaulted_field_def
  have t1: "AlleleExactResult_tagged json_types ''abc'' (PDict [(''allele_id'', PInt 1)])
     = Inr \<lparr>aer_allele_id = 1, aer_href = None, aer_allele_name = Some ''abc'',
                aer_start = None, aer_end = None, aer_orientation = None, aer_length = None,
                aer_contig = None, aer_linked_data = None\<rparr>"
    by (simp add: ev)
  have t2: "AlleleExactResult_tagged json_types ''xyz'' (PDict [(''allele_id'', PInt 2)])
     = Inr \<lparr>aer_allele_id = 2, aer_href = None, aer_allele_name = Some ''xyz'',
                aer_start = None, aer_end = None, aer_orientation = None, aer_length = None,
                aer_contig = None, aer_linked_data = None\<rparr>"
    by (simp add: ev)
  have args: "set (map fst ?kw) \<subseteq> {''exact_matches'', ''partial_matches'', ''fields''}"
    by simp
  have em: "defaulted_field json_types (v_dict json_types) ?kw ''exact_matches''
              = Inr (Some (map (\<lambda>(k, ms). (k, PList ms)) ?groups))"
    by (simp add: defaulted_field_def json_types_def example_exact_matches_def)
  have pm: "defaulted_field json_types (v_dict json_types) ?kw ''partial_matches'' = Inr None"
    by (simp add: defaulted_field_def)
  have fs: "defaulted_field json_types (v_dict json_types) ?kw ''fields'' = Inr None"
    by (simp add: defaulted_field_def)
  have ok: "\<forall>(k, ms)\<in>set ?groups. \<forall>m\<in>set ms. \<exists>r. AlleleExactResult_tagged json_types k m = Inr r"
    using t1 t2 by simp
  have str: "\<forall>(k, ms)\<in>set ?groups. v_str json_types (PStr k) = Some k"
    by (simp add: json_types_def)
  from exact_matches_flattened [OF args em pm fs ok str] obtain res where
    res: "SequenceQueryResult_new json_types ?kw = Inr res"
    and ms: "sqr_exact_matches res
             = concat (map (\<lambda>(k, ms). map (\<lambda>m. projr (AlleleExactResult_tagged json_types k m)) ms)
                 ?groups)"
    and rest: "sqr_partial_matches res = None" "sqr_fields res = None"
    by blast
  from ms t1 t2 rest have "res = \<lparr>sqr_exact_matches =
              [\<lparr>aer_allele_id = 1, aer_href = None, aer_allele_name = Some ''abc'',
                aer_start = None, aer_end = None, aer_orientation = None, aer_length = None,
                aer_contig = None, aer_linked_data = None\<rparr>,
               \<lparr>aer_allele_id = 2, aer_href = None, aer_allele_name = Some ''xyz'',
                aer_start = None, aer_end = None, aer_orientation = None, aer_length = None,
                aer_contig = None, aer_linked_data = None\<rparr>],
            sqr_partial_matches = None, sqr_fields = None\<rparr>"
    by (cases res) simp
  with res show ?thesis by simp
qed

text \<open>
  C10. When \<open>exact_matches\<close> is left out, or is \<open>None\<close> (which no \<open>Dict\<close> validator turns
  into a mapping), building a \<open>SequenceQueryResult\<close>, a \<open>SchemeQueryResult\<close> or an
  \<open>rMLSTResultModel\<close> fails: no result with an empty match list is produced. With no
  argument at all the failure is the \<open>AttributeError\<close> of \<open>None.items()\<close>.
\<close>

theorem exact_matches_required:
  assumes "v_dict V PNone = None"
      and "map_of kw ''exact_matches'' = None \<or> map_of kw ''exact_matches'' = Some PNone"
  shows "(\<exists>e. SequenceQueryResult_new V kw = Inl e)
         \<and> (\<exists>e. SchemeQueryResult_new V kw = Inl e)
         \<and> (\<exists>e. rMLSTResultModel_new V kw = Inl e)
         \<and> SequenceQueryResult_new V [] = Inl AttributeError
         \<and> rMLSTResultModel_new V [] = Inl AttributeError"
proof -
  have em: "defaulted_field V (v_dict V) kw ''exact_matches'' = Inr None
            \<or> defaulted_field V (v_dict V) kw ''exact_matches'' = Inl ValidationError"
    using assms by (cases "none_for_default V") (auto simp: defaulted_field_def)
  have post: "SequenceQueryResult_post_init V
                \<lparr>raw_exact_matches = None, raw_partial_matches = pm, raw_fields = fs\<rparr>
              = Inl AttributeError" for pm fs
    by (simp add: SequenceQueryResult_post_init_def exact_matches_post_init_def bind_exn_def)
  have a: "\<exists>e. SequenceQueryResult_new V kw = Inl e"
    using em post
    by (auto simp: SequenceQueryResult_new_def bind_exn_def split: sum.splits)
  have b: "\<exists>e. rMLSTResultModel_new V kw = Inl e"
    using em post
    by (auto simp: rMLSTResultModel_new_def rMLSTResultModel_post_init_def bind_exn_def
        split: sum.splits)
  have c: "SequenceQueryResult_new V [] = Inl AttributeError"
    by (simp add: SequenceQueryResult_new_def bind_exn_def bind_args_def defaulted_field_def
        post)
  have d: "rMLSTResultModel_new V [] = Inl AttributeError"
    by (simp add: rMLSTResultModel_new_def rMLSTResultModel_post_init_def bind_exn_def
        bind_args_def defaulted_field_def post)
  from a b c d show ?thesis by (simp add: SchemeQueryResult_new_def)
qed

theorem exact_matches_required_witness:
  "v_dict json_types PNone = None
   \<and> map_of [(''exact_matches'', PNone)] ''exact_matches'' = Some PNone
   \<and> (\<exists>e. SequenceQueryResult_new json_types [(''exact_matches'', PNone)] = Inl e)
   \<and> (\<exists>e. SchemeQueryResult_new json_types [(''exact_matches'', PNone)] = Inl e)
   \<and> (\<exists>e. rMLSTResultModel_new json_types [(''exact_matches'', PNone)] = Inl e)
   \<and> map_of [(''partial_matches'', PDict [])] ''exact_matches'' = None
   \<and> (\<exists>e. SequenceQueryResult_new json_types [(''partial_matches'', PDict [])] = Inl e)
   \<and> (\<exists>e. rMLSTResultModel_new json_types [(''partial_matches'', PDict [])] = Inl e)"
  using exact_matches_required [of json_types "[(''exact_matches'', PNone)]"]
        exact_matches_required [of json_types "[(''partial_matches'', PDict [])]"]
  by (simp add: json_types_def)

end
